theory Spec2Isabelle
  imports Complex_Main "HOL-Library.Sublist"
begin

section \<open>Python values\<close>

text \<open>
  The script is Python. Exceptions become values of \<open>error\<close>; a function that can raise
  returns \<open>error + 'a\<close>. Python floats are modelled by \<open>real\<close>: the arithmetic of the
  script (a division, a product with a two-digit decimal constant, a halving) is taken
  exactly, and the special values \<open>inf\<close> and \<open>nan\<close> are outside the model. Python
  integers are \<open>int\<close>. A Python \<open>str\<close> is a \<open>string\<close>, one \<open>char\<close> per code point, so
  the model covers texts whose code points are below 256.
\<close>

datatype error =
    ValueError string
  | KeyError string
  | ZeroDivisionError
  | OtherError string

text \<open>\<open>int(x)\<close> on a float truncates toward zero.\<close>

definition py_int :: "real \<Rightarrow> int" where
  "py_int x = (if 0 \<le> x then \<lfloor>x\<rfloor> else \<lceil>x\<rceil>)"

text \<open>
  \<open>round(x)\<close> on a float rounds to the nearest integer, ties to the even one. The script
  never calls it; it is the function the specification names for the default advance
  width, and is defined here from the specification's wording to be compared with
  the script's \<open>int(...)\<close>.
\<close>

definition py_round :: "real \<Rightarrow> int" where
  "py_round x =
     (let f = \<lfloor>x\<rfloor>; d = x - of_int f
      in if d < 1 / 2 then f
         else if 1 / 2 < d then f + 1
         else if even f then f else f + 1)"

definition dquote :: char where
  "dquote = CHR 0x22"

definition squote :: char where
  "squote = CHR 0x27"

text \<open>The characters below 256 for which \<open>str.isspace\<close> holds.\<close>

definition is_space :: "char \<Rightarrow> bool" where
  "is_space c \<longleftrightarrow> c \<in> {CHR 0x09, CHR 0x0A, CHR 0x0B, CHR 0x0C, CHR 0x0D,
                         CHR 0x1C, CHR 0x1D, CHR 0x1E, CHR 0x1F, CHR 0x20,
                         CHR 0x85, CHR 0xA0}"

text \<open>
  \<open>s.split()\<close> without arguments: the maximal runs of non-whitespace characters, in
  order. \<open>cur\<close> is the run being read.
\<close>

fun split_ws :: "string \<Rightarrow> string \<Rightarrow> string list" where
  "split_ws cur [] = (if cur = [] then [] else [cur])"
| "split_ws cur (c # cs) =
     (if is_space c then (if cur = [] then split_ws [] cs else cur # split_ws [] cs)
      else split_ws (cur @ [c]) cs)"

definition py_split :: "string \<Rightarrow> string list" where
  "py_split s = split_ws [] s"

text \<open>\<open>after_prefix p s\<close> is what follows the literal text \<open>p\<close> at the start of \<open>s\<close>.\<close>

fun after_prefix :: "string \<Rightarrow> string \<Rightarrow> string option" where
  "after_prefix [] s = Some s"
| "after_prefix (p # ps) [] = None"
| "after_prefix (p # ps) (c # cs) = (if p = c then after_prefix ps cs else None)"

section \<open>SVG preprocessing\<close>

subsection \<open>\<open>clean_svg_content\<close>\<close>

text \<open>
  The pattern \<^verbatim>\<open><\?xml[^>]+\?>\<close> at the start of \<open>s\<close>. After the literal \<^verbatim>\<open><?xml\<close> the
  class \<^verbatim>\<open>[^>]+\<close> can only stop right before the first \<^verbatim>\<open>>\<close>, so the characters up to
  that \<^verbatim>\<open>>\<close> must end in \<^verbatim>\<open>?\<close> and leave at least one character for the class. The
  result is the text after the match.
\<close>

definition match_xml_decl :: "string \<Rightarrow> string option" where
  "match_xml_decl s =
     (case after_prefix ''<?xml'' s of
        None \<Rightarrow> None
      | Some rest \<Rightarrow>
          (let run = takeWhile (\<lambda>c. c \<noteq> CHR ''>'') rest;
               tail = dropWhile (\<lambda>c. c \<noteq> CHR ''>'') rest
           in if 2 \<le> length run \<and> last run = CHR ''?'' \<and> tail \<noteq> []
              then Some (tl tail) else None))"

text \<open>The pattern \<^verbatim>\<open>encoding="[^"]+"\<close> at the start of \<open>s\<close>; the text after the match.\<close>

definition match_encoding :: "string \<Rightarrow> string option" where
  "match_encoding s =
     (case after_prefix (''encoding='' @ [dquote]) s of
        None \<Rightarrow> None
      | Some rest \<Rightarrow>
          (let run = takeWhile (\<lambda>c. c \<noteq> dquote) rest;
               tail = dropWhile (\<lambda>c. c \<noteq> dquote) rest
           in if run \<noteq> [] \<and> tail \<noteq> [] then Some (tl tail) else None))"

text \<open>
  \<open>re.sub(pattern, '', s)\<close> for a pattern that matches no empty text: scanning from the
  left, a match is dropped and the scan goes on after it, any other character is kept.
  \<open>k\<close> counts the characters of the current match still to drop.
\<close>

fun re_sub_empty :: "(string \<Rightarrow> string option) \<Rightarrow> nat \<Rightarrow> string \<Rightarrow> string" where
  "re_sub_empty m k [] = []"
| "re_sub_empty m (Suc k) (c # cs) = re_sub_empty m k cs"
| "re_sub_empty m 0 (c # cs) =
     (case m (c # cs) of
        Some rest \<Rightarrow> re_sub_empty m (length cs - length rest) cs
      | None \<Rightarrow> c # re_sub_empty m 0 cs)"

definition clean_svg_content :: "string \<Rightarrow> string" where
  "clean_svg_content svg_content =
     (let svg_content = re_sub_empty match_xml_decl 0 svg_content;
          svg_content = re_sub_empty match_encoding 0 svg_content
      in svg_content)"

subsection \<open>\<open>get_svg_viewbox\<close>\<close>

definition is_quote :: "char \<Rightarrow> bool" where
  "is_quote c \<longleftrightarrow> c = dquote \<or> c = squote"

text \<open>
  The pattern \<^verbatim>\<open>viewBox=["\']([^"\']+)["\']\<close> at the start of \<open>s\<close>; the result is group 1.
  The class takes every character up to the next quote, which must exist, and must
  take at least one.
\<close>

definition match_viewBox :: "string \<Rightarrow> string option" where
  "match_viewBox s =
     (case after_prefix ''viewBox='' s of
        None \<Rightarrow> None
      | Some [] \<Rightarrow> None
      | Some (q # rest) \<Rightarrow>
          if is_quote q then
            (let body = takeWhile (\<lambda>c. \<not> is_quote c) rest;
                 tail = dropWhile (\<lambda>c. \<not> is_quote c) rest
             in if body \<noteq> [] \<and> tail \<noteq> [] then Some body else None)
          else None)"

text \<open>\<open>re.search\<close>: the match at the leftmost position that has one.\<close>

fun search_viewBox :: "string \<Rightarrow> string option" where
  "search_viewBox [] = None"
| "search_viewBox (c # cs) =
     (case match_viewBox (c # cs) of
        Some body \<Rightarrow> Some body
      | None \<Rightarrow> search_viewBox cs)"

text \<open>
  The comprehension \<open>[float(n) for n in ...]\<close>. The builtin \<open>float\<close> is the parameter
  \<open>pf\<close>, \<open>None\<close> where it raises \<open>ValueError\<close>; the first failure ends the comprehension.
\<close>

fun float_all :: "(string \<Rightarrow> real option) \<Rightarrow> string list \<Rightarrow> real list option" where
  "float_all pf [] = Some []"
| "float_all pf (n # ns) =
     (case pf n of
        None \<Rightarrow> None
      | Some v \<Rightarrow> (case float_all pf ns of None \<Rightarrow> None | Some vs \<Rightarrow> Some (v # vs)))"

text \<open>\<open>None\<close> is Python's \<open>None\<close>; the \<open>ValueError\<close> of \<open>float\<close> is caught and leads there.\<close>

definition get_svg_viewbox :: "(string \<Rightarrow> real option) \<Rightarrow> string \<Rightarrow> real list option" where
  "get_svg_viewbox pf svg_content =
     (case search_viewBox svg_content of
        Some group1 \<Rightarrow> float_all pf (py_split group1)
      | None \<Rightarrow> None)"

section \<open>The transform calculator\<close>

text \<open>\<open>fontTools.misc.transform.Transform\<close>, a named tuple of six numbers.\<close>

record transform =
  xx :: real
  xy :: real
  yx :: real
  yy :: real
  dx :: real
  dy :: real

text \<open>
  \<open>if viewbox:\<close> holds for a non-empty list. Unpacking a list whose length is not four
  raises \<open>ValueError\<close>; dividing by a zero width or height raises \<open>ZeroDivisionError\<close>.
\<close>

definition calculate_transform ::
    "(string \<Rightarrow> real option) \<Rightarrow> string \<Rightarrow> int \<Rightarrow> int \<Rightarrow> real \<Rightarrow> error + transform" where
  "calculate_transform pf svg_content units_per_em advance_width special_x =
     (let viewbox = get_svg_viewbox pf svg_content
      in if viewbox \<noteq> None \<and> viewbox \<noteq> Some [] then
           (case the viewbox of
              [x, y, width, height] \<Rightarrow>
                if width = 0 \<or> height = 0 then Inl ZeroDivisionError
                else
                  (let scale_factor =
                         min (of_int units_per_em / width) (of_int units_per_em / height) * 0.7;
                       advance_width =
                         (if advance_width = 0 then units_per_em else advance_width);
                       translate_x = (of_int advance_width - width) / 2 - x + special_x;
                       translate_x = translate_x * scale_factor;
                       math_axis = of_int units_per_em * 0.3;
                       svg_center_y = y + height / 2;
                       translate_y = math_axis - svg_center_y * (- scale_factor)
                   in Inr \<lparr>xx = scale_factor, xy = 0, yx = 0, yy = - scale_factor,
                           dx = translate_x, dy = translate_y\<rparr>)
            | _ \<Rightarrow> Inl (ValueError ''unpack''))
         else
           (let scale = 0.7 * of_int units_per_em / 1000;
                translate_x = (of_int advance_width - 700) / 2;
                translate_y = of_int units_per_em * 0.45
            in Inr \<lparr>xx = scale, xy = 0, yx = 0, yy = - scale,
                    dx = translate_x, dy = translate_y\<rparr>))"

section \<open>A sample \<open>float\<close>\<close>

text \<open>
  For evaluation at concrete inputs: \<open>float\<close> restricted to non-empty strings of decimal
  digits, where it returns the number written. Every other string is rejected here.
\<close>

definition digit_val :: "char \<Rightarrow> nat option" where
  "digit_val c =
     (let n = (of_char c :: nat)
      in if 48 \<le> n \<and> n \<le> 57 then Some (n - 48) else None)"

fun digits_val :: "nat \<Rightarrow> string \<Rightarrow> nat option" where
  "digits_val acc [] = Some acc"
| "digits_val acc (c # cs) =
     (case digit_val c of None \<Rightarrow> None | Some d \<Rightarrow> digits_val (10 * acc + d) cs)"

definition float_of_digits :: "string \<Rightarrow> real option" where
  "float_of_digits s = (if s = [] then None else map_option real (digits_val 0 s))"

text \<open>Two SVG texts: one declares the viewBox \<open>0 0 100 100\<close>, one declares none.\<close>

definition svg_100 :: string where
  "svg_100 = ''<svg viewBox='' @ [dquote] @ ''0 0 100 100'' @ [dquote] @ ''/>''"

definition svg_plain :: string where
  "svg_plain = ''<svg/>''"

text \<open>An SVG text whose viewBox has three numbers.\<close>

definition svg_three :: string where
  "svg_three = ''<svg viewBox='' @ [dquote] @ ''0 0 100'' @ [dquote] @ ''/>''"

section \<open>The font container and its collaborators\<close>

text \<open>
  The font is an object of the font library; the script reads and writes the parts
  below. A table that may be missing from the font is an \<open>option\<close>: \<open>font['glyf']\<close> on a
  font without that table raises \<open>KeyError\<close>. The glyph is what the pen returns; the
  script only looks at its \<open>coordinates\<close>, \<open>None\<close> when the attribute is missing.
\<close>

record glyph =
  coordinates :: "(real \<times> real) list option"

record cmap_table =
  isUnicode :: bool
  cmap :: "int \<rightharpoonup> string"

record font =
  unitsPerEm :: int
  glyf :: "(string \<rightharpoonup> glyph) option"
  hmtx :: "(string \<rightharpoonup> int \<times> int) option"
  font_cmap :: "cmap_table list option"
  glyphOrder :: "string list"
  maxp_numGlyphs :: "int option"
  flavor :: "string option"
  recalcBBoxes :: bool

text \<open>One element of \<open>svg_data_list\<close>: the five values the loop unpacks, in their order
  \<open>(svg_file_path, glyph_name, unicode_hex, advance_width, special_x)\<close>.\<close>

type_synonym request = "string \<times> string \<times> string \<times> int \<times> real"

text \<open>An \<open>SVGPath\<close> object: the document it was built from and its transform.\<close>

record svg_path =
  path_data :: string
  path_transform :: transform

text \<open>
  What the script calls and does not define: the builtins \<open>float\<close> and \<open>int(_, 16)\<close>
  (\<open>None\<close> where they raise \<open>ValueError\<close>), the file system, and the font library.
  \<open>read_text\<close> is \<open>open\<close>, \<open>read\<close> and \<open>decode\<close> together; \<open>draw_glyph\<close> is lines 132 to 134:
  a pen on the font's glyph set, \<open>svg_path.draw(pen)\<close> and \<open>pen.glyph()\<close>. The file
  system does not change before the font is saved. \<open>font.save\<close> is taken to write the
  font as it is in memory.
\<close>

record env =
  py_float :: "string \<Rightarrow> real option"
  py_int16 :: "string \<Rightarrow> int option"
  TTFont :: "string \<Rightarrow> error + font"
  path_exists :: "string \<Rightarrow> bool"
  read_text :: "string \<Rightarrow> error + string"
  SVGPath_fromstring :: "string \<Rightarrow> transform \<Rightarrow> error + svg_path"
  draw_glyph :: "font \<Rightarrow> svg_path \<Rightarrow> error + glyph"

text \<open>The lines printed on the console, one constructor for each \<open>print\<close> of the script.\<close>

datatype event =
    PrintUnitsPerEm int
  | PrintProcessing string string string
  | PrintNotFound string
  | PrintTransform transform
  | PrintError error
  | PrintWarning string
  | PrintAdded string int
  | PrintSaved string

section \<open>\<open>add_svg_glyphs_to_font\<close>\<close>

text \<open>
  The body of the loop is given in four parts, in the order of the source. Each part
  returns what it printed and either the exception that leaves it or its result.

  Lines 108 to 110: the advance width when the request gives \<open>0\<close>.
\<close>

definition default_advance_width :: "int \<Rightarrow> int \<Rightarrow> int" where
  "default_advance_width units_per_em advance_width =
     (if advance_width = 0 then py_int (of_int units_per_em * 0.6) else advance_width)"

text \<open>Lines 113 to 126, the body of the \<open>try\<close>.\<close>

definition try_block ::
    "env \<Rightarrow> int \<Rightarrow> string \<Rightarrow> int \<Rightarrow> real \<Rightarrow> event list \<times> (error + svg_path)" where
  "try_block env units_per_em svg_file_path advance_width special_x =
     (case read_text env svg_file_path of
        Inl e \<Rightarrow> ([], Inl e)
      | Inr svg_text \<Rightarrow>
          (let cleaned_svg = clean_svg_content svg_text
           in case calculate_transform (py_float env) svg_text units_per_em advance_width
                     special_x of
                Inl e \<Rightarrow> ([], Inl e)
              | Inr transform \<Rightarrow>
                  (case SVGPath_fromstring env cleaned_svg transform of
                     Inl e \<Rightarrow> ([PrintTransform transform], Inl e)
                   | Inr svg_path \<Rightarrow> ([PrintTransform transform], Inr svg_path))))"

text \<open>
  Lines 131 to 156, after the \<open>try\<close>: nothing here is caught. The tables in
  \<open>cmap_tables\<close> are the Unicode tables of the font itself, so writing to them writes
  to the font.
\<close>

definition insert_glyph ::
    "env \<Rightarrow> font \<Rightarrow> string \<Rightarrow> string \<Rightarrow> string \<Rightarrow> int \<Rightarrow> svg_path
       \<Rightarrow> event list \<times> (error + font)" where
  "insert_glyph env font svg_file_path glyph_name unicode_hex advance_width svg_path =
     (case draw_glyph env font svg_path of
        Inl e \<Rightarrow> ([], Inl e)
      | Inr glyph \<Rightarrow>
          (let out = (if coordinates glyph = None \<or> coordinates glyph = Some []
                      then [PrintWarning svg_file_path] else [])
           in case glyf font of
                None \<Rightarrow> (out, Inl (KeyError ''glyf''))
              | Some glyphs \<Rightarrow>
                  (let font = font\<lparr>glyf := Some (glyphs(glyph_name \<mapsto> glyph))\<rparr>;
                       glyph_order = glyphOrder font;
                       font = (if glyph_name \<notin> set glyph_order
                               then font\<lparr>glyphOrder := glyph_order @ [glyph_name]\<rparr>
                               else font)
                   in case py_int16 env unicode_hex of
                        None \<Rightarrow> (out, Inl (ValueError ''invalid literal for int() with base 16''))
                      | Some unicode_int \<Rightarrow>
                          (let font = font\<lparr>font_cmap :=
                                 map_option
                                   (map (\<lambda>table. if isUnicode table
                                      then table\<lparr>cmap := (cmap table)(unicode_int \<mapsto> glyph_name)\<rparr>
                                      else table))
                                   (font_cmap font)\<rparr>
                           in case hmtx font of
                                None \<Rightarrow> (out, Inl (KeyError ''hmtx''))
                              | Some metrics \<Rightarrow>
                                  (out @ [PrintAdded glyph_name advance_width],
                                   Inr (font\<lparr>hmtx :=
                                     Some (metrics(glyph_name \<mapsto> (advance_width, 0)))\<rparr>))))))"

text \<open>Lines 100 to 156, one turn of the loop.\<close>

definition process_request :: "env \<Rightarrow> int \<Rightarrow> font \<Rightarrow> request \<Rightarrow> event list \<times> (error + font)" where
  "process_request env units_per_em font req =
     (case req of (svg_file_path, glyph_name, unicode_hex, advance_width, special_x) \<Rightarrow>
        (let out = [PrintProcessing svg_file_path glyph_name unicode_hex]
         in if \<not> path_exists env svg_file_path
            then (out @ [PrintNotFound svg_file_path], Inr font)
            else
              (let advance_width = default_advance_width units_per_em advance_width
               in case try_block env units_per_em svg_file_path advance_width special_x of
                    (out1, Inl e) \<Rightarrow> (out @ out1 @ [PrintError e], Inr font)
                  | (out1, Inr svg_path) \<Rightarrow>
                      (case insert_glyph env font svg_file_path glyph_name unicode_hex
                              advance_width svg_path of
                         (out2, r) \<Rightarrow> (out @ out1 @ out2, r)))))"

text \<open>The loop: an exception that leaves a turn leaves the loop.\<close>

fun process_all :: "env \<Rightarrow> int \<Rightarrow> font \<Rightarrow> request list \<Rightarrow> event list \<times> (error + font)" where
  "process_all env units_per_em font [] = ([], Inr font)"
| "process_all env units_per_em font (req # reqs) =
     (case process_request env units_per_em font req of
        (out, Inl e) \<Rightarrow> (out, Inl e)
      | (out, Inr font') \<Rightarrow>
          (case process_all env units_per_em font' reqs of
             (out', r) \<Rightarrow> (out @ out', r)))"

text \<open>
  What a run leaves behind: the exception that ended it, if any, the console, and the
  font file written, if any. \<open>ensure_tables\<close> is lines 81 to 87 and \<open>prepare_save\<close> is
  lines 158 to 166 of the function. \<open>x_height\<close> (lines 94 to 97) is assigned and never
  read, so it has no part in the model.
\<close>

record run =
  raised :: "error option"
  console :: "event list"
  written :: "(string \<times> font) option"

definition ensure_tables :: "font \<Rightarrow> font" where
  "ensure_tables font =
     (let font = (if glyf font = None then font\<lparr>glyf := Some Map.empty\<rparr> else font);
          font = (if hmtx font = None then font\<lparr>hmtx := Some Map.empty\<rparr> else font)
      in font)"

definition prepare_save :: "font \<Rightarrow> font" where
  "prepare_save font =
     (let font = font\<lparr>flavor := None\<rparr>;
          font = font\<lparr>maxp_numGlyphs :=
                   map_option (\<lambda>_. int (length (glyphOrder font))) (maxp_numGlyphs font)\<rparr>;
          font = font\<lparr>recalcBBoxes := True\<rparr>
      in font)"

definition add_svg_glyphs_to_font :: "env \<Rightarrow> string \<Rightarrow> string \<Rightarrow> request list \<Rightarrow> run" where
  "add_svg_glyphs_to_font env input_font_path output_font_path svg_data_list =
     (case TTFont env input_font_path of
        Inl e \<Rightarrow> \<lparr>raised = Some e, console = [], written = None\<rparr>
      | Inr font \<Rightarrow>
          (let units_per_em = unitsPerEm font;
               out = [PrintUnitsPerEm units_per_em];
               font = ensure_tables font
           in case font_cmap font of
                None \<Rightarrow> \<lparr>raised = Some (KeyError ''cmap''), console = out, written = None\<rparr>
              | Some tables \<Rightarrow>
                  if filter isUnicode tables = []
                  then \<lparr>raised = Some (ValueError (''Font doesn'' @ [squote] @ ''t have Unicode cmap tables'')),
                        console = out, written = None\<rparr>
                  else
                    (case process_all env units_per_em font svg_data_list of
                       (out', Inl e) \<Rightarrow>
                         \<lparr>raised = Some e, console = out @ out', written = None\<rparr>
                     | (out', Inr font) \<Rightarrow>
                         \<lparr>raised = None,
                          console = out @ out' @ [PrintSaved output_font_path],
                          written = Some (output_font_path, prepare_save font)\<rparr>)))"

text \<open>
  A request is not skipped when its file exists and the \<open>try\<close> ends without an
  exception; neither depends on the font.
\<close>

definition not_skipped :: "env \<Rightarrow> int \<Rightarrow> request \<Rightarrow> bool" where
  "not_skipped env units_per_em req =
     (case req of (svg_file_path, glyph_name, unicode_hex, advance_width, special_x) \<Rightarrow>
        path_exists env svg_file_path \<and>
        \<not> isl (snd (try_block env units_per_em svg_file_path
                     (default_advance_width units_per_em advance_width) special_x)))"

section \<open>A sample environment\<close>

text \<open>
  For evaluation at concrete inputs: \<open>int(_, 16)\<close> restricted to non-empty strings of
  hexadecimal digits, a font with 1000 units per em and one Unicode character map, the
  same font with 2048 units per em, the same font with no Unicode character map, and
  three SVG files. The third file is well-formed XML whose path data is malformed: the
  document is built from it, and drawing it raises.
\<close>

definition hex_val :: "char \<Rightarrow> nat option" where
  "hex_val c =
     (let n = (of_char c :: nat)
      in if 97 \<le> n \<and> n \<le> 102 then Some (n - 87)
         else if 65 \<le> n \<and> n \<le> 70 then Some (n - 55)
         else digit_val c)"

fun hex_digits_val :: "nat \<Rightarrow> string \<Rightarrow> nat option" where
  "hex_digits_val acc [] = Some acc"
| "hex_digits_val acc (c # cs) =
     (case hex_val c of None \<Rightarrow> None | Some d \<Rightarrow> hex_digits_val (16 * acc + d) cs)"

definition int16_of_digits :: "string \<Rightarrow> int option" where
  "int16_of_digits s = (if s = [] then None else map_option int (hex_digits_val 0 s))"

definition notdef :: glyph where
  "notdef = \<lparr>coordinates = None\<rparr>"

definition dot :: glyph where
  "dot = \<lparr>coordinates = Some [(0, 0)]\<rparr>"

definition sample_font :: font where
  "sample_font =
     \<lparr>unitsPerEm = 1000,
      glyf = Some [''.notdef'' \<mapsto> notdef],
      hmtx = Some [''.notdef'' \<mapsto> (500, 0)],
      font_cmap = Some [\<lparr>isUnicode = True, cmap = Map.empty\<rparr>],
      glyphOrder = [''.notdef''],
      maxp_numGlyphs = Some 1,
      flavor = Some ''woff2'',
      recalcBBoxes = False\<rparr>"

definition svg_bad :: string where
  "svg_bad = ''<svg><path d='' @ [dquote] @ ''M 10'' @ [dquote] @ ''/></svg>''"

definition sample_env :: env where
  "sample_env =
     \<lparr>py_float = float_of_digits,
      py_int16 = int16_of_digits,
      TTFont = (\<lambda>p. if p = ''in.woff2'' then Inr sample_font
                    else if p = ''in2048.ttf'' then Inr (sample_font\<lparr>unitsPerEm := 2048\<rparr>)
                    else if p = ''symbol.ttf'' then
                      Inr (sample_font\<lparr>font_cmap := Some [\<lparr>isUnicode = False, cmap = Map.empty\<rparr>]\<rparr>)
                    else Inl (OtherError ''FileNotFoundError'')),
      path_exists = (\<lambda>p. p = ''a.svg'' \<or> p = ''plain.svg'' \<or> p = ''bad.svg''),
      read_text = (\<lambda>p. if p = ''a.svg'' then Inr svg_100
                       else if p = ''plain.svg'' then Inr svg_plain
                       else if p = ''bad.svg'' then Inr svg_bad
                       else Inl (OtherError ''FileNotFoundError'')),
      SVGPath_fromstring = (\<lambda>data t. Inr \<lparr>path_data = data, path_transform = t\<rparr>),
      draw_glyph = (\<lambda>font svg_path. if path_data svg_path = svg_bad
                                      then Inl (OtherError ''malformed path data'')
                                      else Inr dot)\<rparr>"

text \<open>
  The sample font after the glyph \<open>cup\<close> was inserted at U+222A with advance width \<open>w\<close>.
\<close>

definition font_with_cup :: "int \<Rightarrow> font" where
  "font_with_cup w =
     sample_font
       \<lparr>glyf := Some [''.notdef'' \<mapsto> notdef, ''cup'' \<mapsto> dot],
        hmtx := Some [''.notdef'' \<mapsto> (500, 0), ''cup'' \<mapsto> (w, 0)],
        font_cmap := Some [\<lparr>isUnicode = True, cmap = [8746 \<mapsto> ''cup'']\<rparr>],
        glyphOrder := [''.notdef'', ''cup'']\<rparr>"

section \<open>The viewBox pattern\<close>

lemma after_prefix_eq: "after_prefix p s = Some r \<longleftrightarrow> s = p @ r"
  by (induction p s rule: after_prefix.induct) auto

lemma match_viewBox_prefix: "match_viewBox s = Some b \<Longrightarrow> prefix ''viewBox='' s"
  by (auto simp: match_viewBox_def after_prefix_eq prefix_def split: option.splits)

text \<open>The pattern matches an attribute written in full, and its group is the quoted text.\<close>

lemma match_viewBox_here:
  assumes "is_quote q1" "is_quote q2" "body \<noteq> []" "\<forall>c\<in>set body. \<not> is_quote c"
  shows "match_viewBox (''viewBox='' @ q1 # body @ q2 # post) = Some body"
proof -
  have "after_prefix ''viewBox='' (''viewBox='' @ q1 # body @ q2 # post)
          = Some (q1 # body @ q2 # post)"
    by (simp only: after_prefix_eq)
  moreover have "takeWhile (\<lambda>c. \<not> is_quote c) (body @ q2 # post) = body"
    using assms by (simp add: takeWhile_append2)
  moreover have "dropWhile (\<lambda>c. \<not> is_quote c) (body @ q2 # post) = q2 # post"
    using assms by (simp add: dropWhile_append2)
  ultimately show ?thesis
    using assms by (simp add: match_viewBox_def)
qed

text \<open>A text in which \<^verbatim>\<open>viewBox=\<close> does not occur has no match at any position.\<close>

lemma no_text_no_match:
  assumes "\<not> sublist ''viewBox='' t"
  shows "match_viewBox (drop k t) = None"
proof (cases "match_viewBox (drop k t)")
  case (Some b)
  then have "prefix ''viewBox='' (drop k t)" by (rule match_viewBox_prefix)
  then obtain r where "drop k t = ''viewBox='' @ r" by (auto simp: prefix_def)
  then have "t = take k t @ ''viewBox='' @ r" by (metis append_take_drop_id)
  then have "sublist ''viewBox='' t" by (metis sublist_appendI)
  with assms show ?thesis by simp
qed simp

lemma search_viewBox_none:
  "\<forall>k<length t. match_viewBox (drop k t) = None \<Longrightarrow> search_viewBox t = None"
proof (induction t)
  case Nil
  then show ?case by simp
next
  case (Cons c t)
  have "match_viewBox (c # t) = None"
    using Cons.prems [rule_format, of 0] by simp
  moreover have "\<forall>k<length t. match_viewBox (drop k t) = None"
    using Cons.prems [rule_format, of "Suc k" for k] by simp
  ultimately show ?case using Cons.IH by simp
qed

lemma search_viewBox_leftmost:
  assumes "match_viewBox rest = Some body"
    and "\<forall>k<length pre. match_viewBox (drop k (pre @ rest)) = None"
  shows "search_viewBox (pre @ rest) = Some body"
  using assms(2)
proof (induction pre)
  case Nil
  from assms(1) show ?case by (cases rest) (simp_all add: match_viewBox_def)
next
  case (Cons c pre)
  have "match_viewBox (c # pre @ rest) = None"
    using Cons.prems [rule_format, of 0] by simp
  moreover have "\<forall>k<length pre. match_viewBox (drop k (pre @ rest)) = None"
    using Cons.prems [rule_format, of "Suc k" for k] by simp
  ultimately show ?case using Cons.IH by simp
qed

lemma float_all_None: "float_all pf ns = None \<longleftrightarrow> (\<exists>n\<in>set ns. pf n = None)"
  by (induction ns) (auto split: option.splits)

text \<open>
  What \<open>get_svg_viewbox\<close> returns, for any \<open>float\<close>. It returns \<open>None\<close> for a text in which
  the pattern matches nowhere. For a text whose leftmost match is \<^verbatim>\<open>viewBox=\<close>, a quote,
  a non-empty text \<open>body\<close> without quotes, and a quote, it returns \<open>None\<close> when \<open>float\<close>
  rejects one of the whitespace-separated parts of \<open>body\<close>, and the four numbers
  \<open>[x, y, w, h]\<close> when \<open>body\<close> has four parts that \<open>float\<close> reads as \<open>x\<close>, \<open>y\<close>, \<open>w\<close>
  and \<open>h\<close>.
\<close>

theorem get_svg_viewbox_contract:
  "((\<forall>k<length t. match_viewBox (drop k t) = None) \<longrightarrow> get_svg_viewbox pf t = None) \<and>
   (is_quote q1 \<and> is_quote q2 \<and> body \<noteq> [] \<and> (\<forall>c\<in>set body. \<not> is_quote c) \<and>
    (\<forall>k<length pre.
        match_viewBox (drop k (pre @ ''viewBox='' @ q1 # body @ q2 # post)) = None) \<longrightarrow>
      ((\<exists>n\<in>set (py_split body). pf n = None) \<longrightarrow>
         get_svg_viewbox pf (pre @ ''viewBox='' @ q1 # body @ q2 # post) = None) \<and>
      (py_split body = [a, b, c, d] \<and>
       pf a = Some x \<and> pf b = Some y \<and> pf c = Some w \<and> pf d = Some h \<longrightarrow>
         get_svg_viewbox pf (pre @ ''viewBox='' @ q1 # body @ q2 # post) = Some [x, y, w, h]))"
proof (intro conjI impI)
  assume "\<forall>k<length t. match_viewBox (drop k t) = None"
  then show "get_svg_viewbox pf t = None"
    by (simp add: get_svg_viewbox_def search_viewBox_none)
next
  let ?s = "pre @ ''viewBox='' @ q1 # body @ q2 # post"
  assume h: "is_quote q1 \<and> is_quote q2 \<and> body \<noteq> [] \<and> (\<forall>c\<in>set body. \<not> is_quote c) \<and>
    (\<forall>k<length pre. match_viewBox (drop k ?s) = None)"
  then have "match_viewBox (''viewBox='' @ q1 # body @ q2 # post) = Some body"
    using match_viewBox_here by blast
  with h have found: "search_viewBox ?s = Some body"
    by (intro search_viewBox_leftmost) simp_all
  {
    assume "\<exists>n\<in>set (py_split body). pf n = None"
    then have "float_all pf (py_split body) = None"
      by (simp add: float_all_None)
    with found show "get_svg_viewbox pf ?s = None"
      by (simp add: get_svg_viewbox_def)
  }
  {
    assume "py_split body = [a, b, c, d] \<and>
      pf a = Some x \<and> pf b = Some y \<and> pf c = Some w \<and> pf d = Some h"
    then have "float_all pf (py_split body) = Some [x, y, w, h]"
      by simp
    with found show "get_svg_viewbox pf ?s = Some [x, y, w, h]"
      by (simp add: get_svg_viewbox_def)
  }
qed

theorem get_svg_viewbox_contract_witness:
  "get_svg_viewbox float_of_digits svg_plain = None \<and>
   is_quote dquote \<and> ''0 0 100 100'' \<noteq> [] \<and>
   py_split ''0 0 100 100'' = [''0'', ''0'', ''100'', ''100''] \<and>
   float_of_digits ''0'' = Some 0 \<and> float_of_digits ''100'' = Some 100 \<and>
   get_svg_viewbox float_of_digits svg_100 = Some [0, 0, 100, 100] \<and>
   (\<exists>n\<in>set (py_split ''0 0 x 100''). float_of_digits n = None) \<and>
   get_svg_viewbox float_of_digits (''viewBox='' @ dquote # ''0 0 x 100'' @ [dquote]) = None"
proof -
  have absent: "\<forall>k<length svg_plain. match_viewBox (drop k svg_plain) = None"
    by (intro allI impI no_text_no_match) (simp add: svg_plain_def sublist_Cons_right)
  have q: "is_quote dquote"
    by (simp add: is_quote_def)
  have body: "''0 0 100 100'' \<noteq> [] \<and> (\<forall>c\<in>set ''0 0 100 100''. \<not> is_quote c)"
    by (simp add: is_quote_def dquote_def squote_def)
  have body2: "''0 0 x 100'' \<noteq> [] \<and> (\<forall>c\<in>set ''0 0 x 100''. \<not> is_quote c)"
    by (simp add: is_quote_def dquote_def squote_def)
  have s100: "svg_100 = ''<svg '' @ ''viewBox='' @ dquote # ''0 0 100 100'' @ dquote # ''/>''"
    by (simp add: svg_100_def)
  have first: "\<forall>k<length ''<svg ''. match_viewBox (drop k svg_100) = None"
    by (simp add: All_less_Suc svg_100_def match_viewBox_def)
  have first2: "\<forall>k<length ([] :: string).
      match_viewBox (drop k (''viewBox='' @ dquote # ''0 0 x 100'' @ [dquote])) = None"
    by simp
  have toks: "py_split ''0 0 100 100'' = [''0'', ''0'', ''100'', ''100'']"
    by (simp add: py_split_def is_space_def)
  have vals: "float_of_digits ''0'' = Some 0 \<and> float_of_digits ''100'' = Some 100"
    by (simp add: float_of_digits_def digit_val_def)
  have bad: "\<exists>n\<in>set (py_split ''0 0 x 100''). float_of_digits n = None"
    by (simp add: py_split_def is_space_def float_of_digits_def digit_val_def)
  have 1: "get_svg_viewbox float_of_digits svg_plain = None"
    using get_svg_viewbox_contract [of svg_plain float_of_digits] absent by blast
  have 2: "get_svg_viewbox float_of_digits svg_100 = Some [0, 0, 100, 100]"
    using get_svg_viewbox_contract [of _ float_of_digits dquote dquote "''0 0 100 100''"
        "''<svg ''" "''/>''" "''0''" "''0''" "''100''" "''100''" 0 0 100 100]
      q body first toks vals
    unfolding s100 by blast
  have 3: "get_svg_viewbox float_of_digits (''viewBox='' @ dquote # ''0 0 x 100'' @ [dquote]) = None"
    using get_svg_viewbox_contract [of _ float_of_digits dquote dquote "''0 0 x 100''" "[]" "[]"]
      q body2 first2 bad
    by simp
  from q body toks vals bad 1 2 3 show ?thesis by blast
qed

text \<open>
  The number of parts is not looked at: when \<open>float\<close> reads every part of the first
  match, the result is the list of all of them, whatever its length.
\<close>

lemma get_svg_viewbox_any_length:
  assumes "is_quote q1" "is_quote q2" "body \<noteq> []" "\<forall>c\<in>set body. \<not> is_quote c"
    and "\<forall>k<length pre.
           match_viewBox (drop k (pre @ ''viewBox='' @ q1 # body @ q2 # post)) = None"
    and "float_all pf (py_split body) = Some vs"
  shows "get_svg_viewbox pf (pre @ ''viewBox='' @ q1 # body @ q2 # post) = Some vs"
proof -
  have "match_viewBox (''viewBox='' @ q1 # body @ q2 # post) = Some body"
    using assms(1-4) by (rule match_viewBox_here)
  then have "search_viewBox (pre @ ''viewBox='' @ q1 # body @ q2 # post) = Some body"
    using assms(5) by (rule search_viewBox_leftmost)
  with assms(6) show ?thesis
    by (simp add: get_svg_viewbox_def)
qed

text \<open>
  C8. The claim does not hold for a viewBox of three numbers. The text
  \<^verbatim>\<open><svg viewBox="0 0 100"/>\<close> has the attribute and each of its parts is a number;
  \<open>get_svg_viewbox\<close> returns the three numbers, which are neither four numbers
  \<open>(minX, minY, width, height)\<close> nor the result for "not found". \<open>calculate_transform\<close>
  then fails to unpack them, where a text without the attribute gets the default
  transform.
\<close>

theorem get_svg_viewbox_three_numbers:
  "get_svg_viewbox float_of_digits svg_three = Some [0, 0, 100] \<and>
   calculate_transform float_of_digits svg_three 1000 600 0 = Inl (ValueError ''unpack'') \<and>
   get_svg_viewbox float_of_digits svg_plain = None \<and>
   calculate_transform float_of_digits svg_plain 1000 600 0 =
     Inr \<lparr>xx = 0.7, xy = 0, yx = 0, yy = - 0.7, dx = - 50, dy = 450\<rparr>"
proof -
  have three: "get_svg_viewbox float_of_digits svg_three = Some [0, 0, 100]"
    by (simp add: get_svg_viewbox_def svg_three_def match_viewBox_def is_quote_def dquote_def
        squote_def py_split_def is_space_def float_of_digits_def digit_val_def)
  have plain: "get_svg_viewbox float_of_digits svg_plain = None"
    by (simp add: get_svg_viewbox_def svg_plain_def match_viewBox_def)
  from three plain show ?thesis
    by (simp add: calculate_transform_def Let_def)
qed

section \<open>The transform\<close>

lemma viewbox_svg_100: "get_svg_viewbox float_of_digits svg_100 = Some [0, 0, 100, 100]"
  by (simp add: get_svg_viewbox_def svg_100_def match_viewBox_def is_quote_def dquote_def
      squote_def py_split_def is_space_def float_of_digits_def digit_val_def)

lemma viewbox_svg_plain: "get_svg_viewbox float_of_digits svg_plain = None"
  by (simp add: get_svg_viewbox_def svg_plain_def match_viewBox_def)

text \<open>
  C4. For a viewBox \<open>(x, y, width, height)\<close> with positive width and height,
  \<open>calculate_transform\<close> returns \<open>(s, 0, 0, -s, tx, ty)\<close> with
  \<open>s = min (units_per_em / width) (units_per_em / height) * 0.7\<close>,
  \<open>tx = ((a - width) / 2 - x + special_x) * s\<close> and
  \<open>ty = units_per_em * 0.3 + (y + height / 2) * s\<close>. Here \<open>a\<close> is the advance width of
  the contract: the one passed in, with \<open>units_per_em\<close> in the place of \<open>0\<close> (lines 44
  and 45, before the line that computes \<open>tx\<close>). The units per em of a font are positive,
  and then \<open>s\<close> is strictly positive.
\<close>

theorem calculate_transform_viewbox:
  assumes "get_svg_viewbox pf svg_content = Some [x, y, width, height]"
    and "0 < width" and "0 < height"
  shows "(let s = min (of_int units_per_em / width) (of_int units_per_em / height) * 0.7;
              a = (if advance_width = 0 then units_per_em else advance_width)
          in calculate_transform pf svg_content units_per_em advance_width special_x =
               Inr \<lparr>xx = s, xy = 0, yx = 0, yy = - s,
                    dx = ((of_int a - width) / 2 - x + special_x) * s,
                    dy = of_int units_per_em * 0.3 + (y + height / 2) * s\<rparr>
             \<and> (0 < units_per_em \<longrightarrow> 0 < s))"
  using assms by (simp add: calculate_transform_def Let_def min_def)

text \<open>
  The example of the specification: 1000 units per em, advance width 600, and the
  same with the advance width \<open>0\<close>, where 1000 is the width of the centring.
\<close>

theorem calculate_transform_viewbox_witness:
  "get_svg_viewbox float_of_digits svg_100 = Some [0, 0, 100, 100] \<and>
   (0 :: real) < 100 \<and>
   calculate_transform float_of_digits svg_100 1000 600 0 =
     Inr \<lparr>xx = 7, xy = 0, yx = 0, yy = - 7, dx = 1750, dy = 650\<rparr> \<and>
   calculate_transform float_of_digits svg_100 1000 0 0 =
     Inr \<lparr>xx = 7, xy = 0, yx = 0, yy = - 7, dx = ((1000 - 100) / 2 - 0 + 0) * 7, dy = 650\<rparr> \<and>
   (0 :: int) < 1000 \<and> (0 :: real) < min (1000 / 100) (1000 / 100) * 0.7"
  using calculate_transform_viewbox [OF viewbox_svg_100, of 1000 600 0]
    calculate_transform_viewbox [OF viewbox_svg_100, of 1000 0 0] viewbox_svg_100
  by (simp add: Let_def)

text \<open>
  C5. When \<open>get_svg_viewbox\<close> finds no viewBox (or an empty one), \<open>calculate_transform\<close>
  returns \<open>(s, 0, 0, -s, tx, ty)\<close> with \<open>s = 0.7 * units_per_em / 1000\<close>,
  \<open>tx = (advance_width - 700) / 2\<close>, in which neither \<open>special_x\<close> nor \<open>s\<close> occurs, and
  \<open>ty = units_per_em * 0.45\<close>.
\<close>

theorem calculate_transform_no_viewbox:
  assumes "get_svg_viewbox pf svg_content = None \<or> get_svg_viewbox pf svg_content = Some []"
  shows "calculate_transform pf svg_content units_per_em advance_width special_x =
           Inr \<lparr>xx = 0.7 * of_int units_per_em / 1000, xy = 0, yx = 0,
                yy = - (0.7 * of_int units_per_em / 1000),
                dx = (of_int advance_width - 700) / 2,
                dy = of_int units_per_em * 0.45\<rparr>"
  using assms by (auto simp: calculate_transform_def Let_def)

text \<open>The example of the specification: 1000 units per em, advance width 600.\<close>

theorem calculate_transform_no_viewbox_witness:
  "get_svg_viewbox float_of_digits svg_plain = None \<and>
   calculate_transform float_of_digits svg_plain 1000 600 5 =
     Inr \<lparr>xx = 0.7, xy = 0, yx = 0, yy = - 0.7, dx = - 50, dy = 450\<rparr>"
  using calculate_transform_no_viewbox [of float_of_digits svg_plain 1000 600 5] viewbox_svg_plain
  by simp

text \<open>
  C6. Whatever the input, a transform returned by \<open>calculate_transform\<close> has a Y scale
  that is the negation of its X scale, and both skew components are 0.
\<close>

theorem calculate_transform_flip:
  "calculate_transform pf svg_content units_per_em advance_width special_x = Inr t
     \<Longrightarrow> yy t = - xx t \<and> xy t = 0 \<and> yx t = 0"
  by (auto simp: calculate_transform_def Let_def split: if_splits list.splits)

theorem calculate_transform_flip_witness:
  "calculate_transform float_of_digits svg_100 1000 600 0 =
     Inr \<lparr>xx = 7, xy = 0, yx = 0, yy = - 7, dx = 1750, dy = 650\<rparr> \<and>
   yy \<lparr>xx = 7, xy = 0, yx = 0, yy = - 7, dx = 1750, dy = 650\<rparr>
     = - xx \<lparr>xx = 7, xy = 0, yx = 0, yy = - 7, dx = 1750, dy = 650\<rparr> \<and>
   xy \<lparr>xx = 7, xy = 0, yx = 0, yy = - 7, dx = 1750, dy = 650\<rparr> = 0 \<and>
   yx \<lparr>xx = 7, xy = 0, yx = 0, yy = - 7, dx = 1750, dy = 650\<rparr> = 0"
proof -
  have r: "calculate_transform float_of_digits svg_100 1000 600 0 =
      Inr \<lparr>xx = 7, xy = 0, yx = 0, yy = - 7, dx = 1750, dy = 650\<rparr>"
    by (simp add: calculate_transform_def viewbox_svg_100)
  from calculate_transform_flip [OF r] r show ?thesis by blast
qed

section \<open>The loop\<close>

lemma py_int_default: "0 \<le> n \<Longrightarrow> py_int (of_int n * 0.6) = (3 * n) div 5"
proof -
  assume "0 \<le> n"
  have "of_int n * (0.6 :: real) = of_int (3 * n) / of_int 5" by simp
  then have "\<lfloor>of_int n * (0.6 :: real)\<rfloor> = (3 * n) div 5"
    by (simp only: floor_divide_of_int_eq)
  with \<open>0 \<le> n\<close> show ?thesis by (simp add: py_int_def)
qed

lemma try_block_Inr:
  assumes "try_block env upm p a sx = (out1, Inr sp)"
  obtains svg_text t where "read_text env p = Inr svg_text"
    and "calculate_transform (py_float env) svg_text upm a sx = Inr t"
    and "SVGPath_fromstring env (clean_svg_content svg_text) t = Inr sp"
    and "out1 = [PrintTransform t]"
  using assms
  by (auto simp: try_block_def Let_def split: sum.splits)

lemma insert_glyph_Inr:
  assumes "insert_glyph env font p g hex adv sp = (out, Inr font')"
  shows "glyphOrder font' =
           (if g \<in> set (glyphOrder font) then glyphOrder font else glyphOrder font @ [g])"
    and "\<exists>metrics. hmtx font' = Some metrics \<and> metrics g = Some (adv, 0)"
    and "py_int16 env hex \<noteq> None"
  using assms
  by (auto simp: insert_glyph_def Let_def split: sum.splits option.splits if_splits)

lemma insert_glyph_bad_hex:
  assumes "py_int16 env hex = None"
  shows "\<exists>out e. insert_glyph env font p g hex adv sp = (out, Inl e)"
  using assms
  by (auto simp: insert_glyph_def Let_def split: sum.splits option.splits)


lemma process_request_inserted:
  assumes "process_request env upm font (p, g, hex, adv, sx) = (out, r)"
    and "not_skipped env upm (p, g, hex, adv, sx)"
  obtains svg_text t sp out2 where "read_text env p = Inr svg_text"
    and "calculate_transform (py_float env) svg_text upm (default_advance_width upm adv) sx = Inr t"
    and "SVGPath_fromstring env (clean_svg_content svg_text) t = Inr sp"
    and "insert_glyph env font p g hex (default_advance_width upm adv) sp = (out2, r)"
    and "out = PrintProcessing p g hex # PrintTransform t # out2"
proof -
  let ?a = "default_advance_width upm adv"
  obtain out1 r1 where tb: "try_block env upm p ?a sx = (out1, r1)"
    by (cases "try_block env upm p ?a sx")
  with assms(2) obtain sp where r1: "r1 = Inr sp"
    by (cases r1) (auto simp: not_skipped_def)
  from tb r1 obtain svg_text t where 1: "read_text env p = Inr svg_text"
    and 2: "calculate_transform (py_float env) svg_text upm ?a sx = Inr t"
    and 3: "SVGPath_fromstring env (clean_svg_content svg_text) t = Inr sp"
    and 4: "out1 = [PrintTransform t]"
    by (auto elim: try_block_Inr)
  obtain out2 r2 where ig: "insert_glyph env font p g hex ?a sp = (out2, r2)"
    by (cases "insert_glyph env font p g hex ?a sp")
  from assms tb r1 4 ig have "r = r2" and "out = PrintProcessing p g hex # PrintTransform t # out2"
    by (auto simp: process_request_def not_skipped_def Let_def)
  with 1 2 3 ig show ?thesis using that by blast
qed

lemma process_request_bad_hex:
  assumes "not_skipped env upm (p, g, hex, adv, sx)" and "py_int16 env hex = None"
  shows "\<exists>out e. process_request env upm font (p, g, hex, adv, sx) = (out, Inl e)"
proof -
  obtain out r where pr: "process_request env upm font (p, g, hex, adv, sx) = (out, r)"
    by (cases "process_request env upm font (p, g, hex, adv, sx)")
  from pr assms(1) obtain sp out2 where
    "insert_glyph env font p g hex (default_advance_width upm adv) sp = (out2, r)"
    by (rule process_request_inserted)
  with insert_glyph_bad_hex [OF assms(2), of font p g "default_advance_width upm adv" sp]
  obtain e where "r = Inl e" by auto
  with pr show ?thesis by blast
qed







lemma process_all_bad_hex:
  assumes "(p, g, hex, adv, sx) \<in> set reqs"
    and "not_skipped env upm (p, g, hex, adv, sx)"
    and "py_int16 env hex = None"
  shows "\<exists>out e. process_all env upm font reqs = (out, Inl e)"
  using assms(1)
proof (induction reqs arbitrary: font)
  case Nil
  then show ?case by simp
next
  case (Cons req reqs)
  obtain out1 r1 where pr: "process_request env upm font req = (out1, r1)"
    by (cases "process_request env upm font req")
  show ?case
  proof (cases r1)
    case (Inl e)
    with pr show ?thesis by simp
  next
    case (Inr font1)
    with pr process_request_bad_hex [OF assms(2,3), of font]
    have "req \<noteq> (p, g, hex, adv, sx)" by auto
    with Cons.prems have "(p, g, hex, adv, sx) \<in> set reqs" by simp
    from Cons.IH [OF this, of font1] obtain out2 e
      where "process_all env upm font1 reqs = (out2, Inl e)" by blast
    with pr Inr show ?thesis by simp
  qed
qed

section \<open>Sample runs\<close>

lemmas sample_defs = sample_env_def sample_font_def svg_100_def svg_plain_def svg_bad_def
  float_of_digits_def int16_of_digits_def digit_val_def hex_val_def dquote_def squote_def
  is_quote_def is_space_def py_split_def get_svg_viewbox_def match_viewBox_def
  clean_svg_content_def match_xml_decl_def match_encoding_def calculate_transform_def
  default_advance_width_def py_int_def try_block_def insert_glyph_def process_request_def
  not_skipped_def dot_def notdef_def font_with_cup_def prepare_save_def ensure_tables_def

lemma sample_step_cup:
  "process_request sample_env 1000 sample_font (''a.svg'', ''cup'', ''222A'', 0, 0) =
     ([PrintProcessing ''a.svg'' ''cup'' ''222A'',
       PrintTransform \<lparr>xx = 7, xy = 0, yx = 0, yy = - 7, dx = 1750, dy = 650\<rparr>,
       PrintAdded ''cup'' 600],
      Inr (font_with_cup 600))"
  by (simp add: sample_defs Let_def)

lemma sample_not_skipped:
  "not_skipped sample_env 1000 (''a.svg'', ''cup'', ''222A'', 0, 0)"
  by (simp add: sample_defs Let_def)

lemma sample_run_2048:
  "add_svg_glyphs_to_font sample_env ''in2048.ttf'' ''out.ttf'' [(''a.svg'', ''cup'', ''222A'', 0, 0)] =
     \<lparr>raised = None,
      console = [PrintUnitsPerEm 2048, PrintProcessing ''a.svg'' ''cup'' ''222A'',
        PrintTransform \<lparr>xx = 14.336, xy = 0, yx = 0, yy = - 14.336, dx = 8085.504, dy = 1331.2\<rparr>,
        PrintAdded ''cup'' 1228, PrintSaved ''out.ttf''],
      written = Some (''out.ttf'', prepare_save ((font_with_cup 1228)\<lparr>unitsPerEm := 2048\<rparr>))\<rparr>"
  by (simp add: sample_defs add_svg_glyphs_to_font_def Let_def)

lemma sample_run_missing:
  "add_svg_glyphs_to_font sample_env ''in.woff2'' ''out.ttf'' [(''missing.svg'', ''cup'', ''22ZZ'', 600, 0)] =
     \<lparr>raised = None,
      console = [PrintUnitsPerEm 1000, PrintProcessing ''missing.svg'' ''cup'' ''22ZZ'',
        PrintNotFound ''missing.svg'', PrintSaved ''out.ttf''],
      written = Some (''out.ttf'', prepare_save sample_font)\<rparr>"
  by (simp add: sample_defs add_svg_glyphs_to_font_def Let_def)


lemma sample_run_bad_hex:
  "add_svg_glyphs_to_font sample_env ''in.woff2'' ''out.ttf''
     [(''a.svg'', ''cup'', ''222A'', 600, 0), (''plain.svg'', ''infinity'', ''22ZZ'', 600, 0)] =
     \<lparr>raised = Some (ValueError ''invalid literal for int() with base 16''),
      console = [PrintUnitsPerEm 1000, PrintProcessing ''a.svg'' ''cup'' ''222A'',
        PrintTransform \<lparr>xx = 7, xy = 0, yx = 0, yy = - 7, dx = 1750, dy = 650\<rparr>,
        PrintAdded ''cup'' 600,
        PrintProcessing ''plain.svg'' ''infinity'' ''22ZZ'',
        PrintTransform \<lparr>xx = 0.7, xy = 0, yx = 0, yy = - 0.7, dx = - 50, dy = 450\<rparr>],
      written = None\<rparr>"
  by (simp add: sample_defs add_svg_glyphs_to_font_def Let_def)

lemma sample_run_bad_path:
  "add_svg_glyphs_to_font sample_env ''in.woff2'' ''out.ttf''
     [(''bad.svg'', ''element_of'', ''2208'', 600, 0), (''a.svg'', ''cup'', ''222A'', 600, 0)] =
     \<lparr>raised = Some (OtherError ''malformed path data''),
      console = [PrintUnitsPerEm 1000, PrintProcessing ''bad.svg'' ''element_of'' ''2208'',
        PrintTransform \<lparr>xx = 0.7, xy = 0, yx = 0, yy = - 0.7, dx = - 50, dy = 450\<rparr>],
      written = None\<rparr>"
  by (simp add: sample_defs add_svg_glyphs_to_font_def Let_def)


lemma font_cmap_ensure_tables: "font_cmap (ensure_tables font) = font_cmap font"
  by (simp add: ensure_tables_def Let_def)



lemma run_aborted:
  assumes "TTFont env inp = Inr font"
    and "\<And>font0. \<exists>out e. process_all env (unitsPerEm font) font0 reqs = (out, Inl e)"
  shows "raised (add_svg_glyphs_to_font env inp outp reqs) \<noteq> None \<and>
         written (add_svg_glyphs_to_font env inp outp reqs) = None"
proof -
  obtain out e where "process_all env (unitsPerEm font) (ensure_tables font) reqs = (out, Inl e)"
    using assms(2) by blast
  with assms(1) show ?thesis
    by (simp add: add_svg_glyphs_to_font_def Let_def split: option.splits)
qed

section \<open>The run\<close>

text \<open>
  C7. When the input font has no Unicode character map (no \<open>cmap\<close> table at all, or
  none of its tables is a Unicode one), \<open>add_svg_glyphs_to_font\<close> ends with an
  exception after printing the units per em: whatever the requests are, none is
  processed, nothing else is printed and no font is written.
\<close>

theorem no_unicode_cmap_is_fatal:
  assumes "TTFont env input_font_path = Inr font"
    and "font_cmap font = None \<or> (\<exists>tables. font_cmap font = Some tables \<and> filter isUnicode tables = [])"
  shows "add_svg_glyphs_to_font env input_font_path output_font_path svg_data_list =
           \<lparr>raised = Some (if font_cmap font = None then KeyError ''cmap''
                            else ValueError (''Font doesn'' @ [squote] @ ''t have Unicode cmap tables'')),
            console = [PrintUnitsPerEm (unitsPerEm font)],
            written = None\<rparr>"
  using assms by (auto simp: add_svg_glyphs_to_font_def Let_def font_cmap_ensure_tables)

theorem no_unicode_cmap_is_fatal_witness:
  "TTFont sample_env ''symbol.ttf'' =
     Inr (sample_font\<lparr>font_cmap := Some [\<lparr>isUnicode = False, cmap = Map.empty\<rparr>]\<rparr>) \<and>
   filter isUnicode [\<lparr>isUnicode = False, cmap = Map.empty\<rparr>] = [] \<and>
   add_svg_glyphs_to_font sample_env ''symbol.ttf'' ''out.ttf''
     [(''a.svg'', ''cup'', ''222A'', 600, 0)] =
     \<lparr>raised = Some (ValueError (''Font doesn'' @ [squote] @ ''t have Unicode cmap tables'')),
      console = [PrintUnitsPerEm 1000],
      written = None\<rparr>"
proof -
  have o: "TTFont sample_env ''symbol.ttf'' =
     Inr (sample_font\<lparr>font_cmap := Some [\<lparr>isUnicode = False, cmap = Map.empty\<rparr>]\<rparr>)"
    by (simp add: sample_env_def)
  have c: "font_cmap (sample_font\<lparr>font_cmap := Some [\<lparr>isUnicode = False, cmap = Map.empty\<rparr>]\<rparr>) = None \<or>
     (\<exists>tables. font_cmap (sample_font\<lparr>font_cmap := Some [\<lparr>isUnicode = False, cmap = Map.empty\<rparr>]\<rparr>) = Some tables
        \<and> filter isUnicode tables = [])"
    by simp
  from no_unicode_cmap_is_fatal [OF o c, of "''out.ttf''" "[(''a.svg'', ''cup'', ''222A'', 600, 0)]"] o
  show ?thesis by (simp add: sample_font_def)
qed

text \<open>
  C3, as the script has it. For a request with advance width \<open>0\<close> that is not skipped
  and is processed without an exception, the advance width stored in \<open>hmtx\<close> is
  \<open>int(units_per_em * 0.6)\<close>, with left side bearing \<open>0\<close>; for a positive \<open>units_per_em\<close>
  that is \<open>0.6 * units_per_em\<close> rounded down, \<open>(3 * units_per_em) div 5\<close>.
\<close>

theorem zero_advance_width_stored:
  assumes "process_request env units_per_em font (p, g, hex, 0, special_x) = (out, Inr font')"
    and "not_skipped env units_per_em (p, g, hex, 0, special_x)"
    and "0 < units_per_em"
  shows "\<exists>metrics. hmtx font' = Some metrics \<and>
           metrics g = Some (py_int (of_int units_per_em * 0.6), 0) \<and>
           py_int (of_int units_per_em * 0.6) = (3 * units_per_em) div 5"
proof -
  from assms(1,2) obtain sp out2 where
    "insert_glyph env font p g hex (default_advance_width units_per_em 0) sp = (out2, Inr font')"
    by (rule process_request_inserted)
  from insert_glyph_Inr(2) [OF this] py_int_default [of units_per_em] assms(3)
  show ?thesis by (simp add: default_advance_width_def)
qed

theorem zero_advance_width_stored_witness:
  "process_request sample_env 1000 sample_font (''a.svg'', ''cup'', ''222A'', 0, 0) =
     ([PrintProcessing ''a.svg'' ''cup'' ''222A'',
       PrintTransform \<lparr>xx = 7, xy = 0, yx = 0, yy = - 7, dx = 1750, dy = 650\<rparr>,
       PrintAdded ''cup'' 600],
      Inr (font_with_cup 600)) \<and>
   not_skipped sample_env 1000 (''a.svg'', ''cup'', ''222A'', 0, 0) \<and>
   (0 :: int) < 1000 \<and>
   (\<exists>metrics. hmtx (font_with_cup 600) = Some metrics \<and> metrics ''cup'' = Some (600, 0))"
proof -
  from zero_advance_width_stored [OF sample_step_cup sample_not_skipped]
  have "\<exists>metrics. hmtx (font_with_cup 600) = Some metrics \<and> metrics ''cup'' = Some (600, 0)"
    by (simp add: py_int_def)
  with sample_step_cup sample_not_skipped show ?thesis by simp
qed

text \<open>
  With 2048 units per em the stored width is 1228, and \<open>round(2048 * 0.6)\<close> is 1229.
\<close>

theorem zero_advance_width_stored_counterexample:
  "written (add_svg_glyphs_to_font sample_env ''in2048.ttf'' ''out.ttf''
      [(''a.svg'', ''cup'', ''222A'', 0, 0)]) =
     Some (''out.ttf'', prepare_save ((font_with_cup 1228)\<lparr>unitsPerEm := 2048\<rparr>)) \<and>
   hmtx (prepare_save ((font_with_cup 1228)\<lparr>unitsPerEm := 2048\<rparr>)) =
     Some [''.notdef'' \<mapsto> (500, 0), ''cup'' \<mapsto> (1228, 0)] \<and>
   py_round (2048 * 0.6) = 1229"
  by (simp add: sample_run_2048 prepare_save_def ensure_tables_def font_with_cup_def py_round_def)

text \<open>
  C1, as the script has it. For a request with advance width \<open>0\<close> that is not skipped and
  is processed without an exception, on an SVG with the viewBox \<open>(x, y, width, height)\<close>:
  the width stored in \<open>hmtx\<close> is \<open>w = int(units_per_em * 0.6)\<close>, and the \<open>tx\<close> of the
  transform printed and used is computed with that same \<open>w\<close> as the advance width;
  \<open>units_per_em\<close> takes its place only when \<open>w\<close> itself is \<open>0\<close>.
\<close>

theorem zero_advance_width_centering:
  assumes "process_request env units_per_em font (p, g, hex, 0, special_x) = (out, Inr font')"
    and "not_skipped env units_per_em (p, g, hex, 0, special_x)"
    and "read_text env p = Inr svg_text"
    and "get_svg_viewbox (py_float env) svg_text = Some [x, y, width, height]"
  shows "\<exists>t rest metrics.
           out = PrintProcessing p g hex # PrintTransform t # rest \<and>
           hmtx font' = Some metrics \<and>
           (let w = py_int (of_int units_per_em * 0.6);
                a = (if w = 0 then units_per_em else w);
                s = min (of_int units_per_em / width) (of_int units_per_em / height) * 0.7
            in metrics g = Some (w, 0) \<and>
               dx t = ((of_int a - width) / 2 - x + special_x) * s)"
proof -
  let ?w = "default_advance_width units_per_em 0"
  from assms(1,2) obtain content t sp out2 where 1: "read_text env p = Inr content"
    and 2: "calculate_transform (py_float env) content units_per_em ?w special_x = Inr t"
    and 3: "insert_glyph env font p g hex ?w sp = (out2, Inr font')"
    and 4: "out = PrintProcessing p g hex # PrintTransform t # out2"
    by (rule process_request_inserted)
  from 1 assms(3) have same: "content = svg_text" by simp
  from insert_glyph_Inr(2) [OF 3] obtain metrics
    where m: "hmtx font' = Some metrics" "metrics g = Some (?w, 0)" by blast
  from 2 assms(4) have
    "dx t = ((of_int (if ?w = 0 then units_per_em else ?w) - width) / 2 - x + special_x) *
            (min (of_int units_per_em / width) (of_int units_per_em / height) * 0.7)"
    unfolding same by (auto simp: calculate_transform_def Let_def split: if_splits)
  with 4 m show ?thesis
    by (simp add: default_advance_width_def Let_def)
qed

theorem zero_advance_width_centering_witness:
  "process_request sample_env 1000 sample_font (''a.svg'', ''cup'', ''222A'', 0, 0) =
     ([PrintProcessing ''a.svg'' ''cup'' ''222A'',
       PrintTransform \<lparr>xx = 7, xy = 0, yx = 0, yy = - 7, dx = 1750, dy = 650\<rparr>,
       PrintAdded ''cup'' 600],
      Inr (font_with_cup 600)) \<and>
   not_skipped sample_env 1000 (''a.svg'', ''cup'', ''222A'', 0, 0) \<and>
   read_text sample_env ''a.svg'' = Inr svg_100 \<and>
   get_svg_viewbox (py_float sample_env) svg_100 = Some [0, 0, 100, 100] \<and>
   (\<exists>t rest metrics.
      [PrintProcessing ''a.svg'' ''cup'' ''222A'',
       PrintTransform \<lparr>xx = 7, xy = 0, yx = 0, yy = - 7, dx = 1750, dy = 650\<rparr>,
       PrintAdded ''cup'' 600] = PrintProcessing ''a.svg'' ''cup'' ''222A'' # PrintTransform t # rest \<and>
      hmtx (font_with_cup 600) = Some metrics \<and>
      metrics ''cup'' = Some (600, 0) \<and>
      dx t = ((600 - 100) / 2 - 0 + 0) * 7)"
proof -
  have r: "read_text sample_env ''a.svg'' = Inr svg_100"
    by (simp add: sample_env_def)
  have v: "get_svg_viewbox (py_float sample_env) svg_100 = Some [0, 0, 100, 100]"
    by (simp add: sample_env_def viewbox_svg_100)
  have w: "py_int (of_int 1000 * 0.6) = 600"
    by (simp add: py_int_def)
  from zero_advance_width_centering [OF sample_step_cup sample_not_skipped r v]
  have "\<exists>t rest metrics.
      [PrintProcessing ''a.svg'' ''cup'' ''222A'',
       PrintTransform \<lparr>xx = 7, xy = 0, yx = 0, yy = - 7, dx = 1750, dy = 650\<rparr>,
       PrintAdded ''cup'' 600] = PrintProcessing ''a.svg'' ''cup'' ''222A'' # PrintTransform t # rest \<and>
      hmtx (font_with_cup 600) = Some metrics \<and>
      metrics ''cup'' = Some (600, 0) \<and>
      dx t = ((600 - 100) / 2 - 0 + 0) * 7"
    unfolding w Let_def by simp
  with sample_step_cup sample_not_skipped r v show ?thesis by blast
qed

text \<open>
  With 2048 units per em and the viewBox \<open>0 0 100 100\<close>, the \<open>tx\<close> printed for a request
  with advance width \<open>0\<close> is the one of the width 1228, not the one of 2048.
\<close>

theorem zero_advance_width_centering_counterexample:
  "console (add_svg_glyphs_to_font sample_env ''in2048.ttf'' ''out.ttf''
      [(''a.svg'', ''cup'', ''222A'', 0, 0)]) =
     [PrintUnitsPerEm 2048, PrintProcessing ''a.svg'' ''cup'' ''222A'',
      PrintTransform \<lparr>xx = 14.336, xy = 0, yx = 0, yy = - 14.336, dx = 8085.504, dy = 1331.2\<rparr>,
      PrintAdded ''cup'' 1228, PrintSaved ''out.ttf''] \<and>
   (8085.504 :: real) = ((1228 - 100) / 2 - 0 + 0) * (min (2048 / 100) (2048 / 100) * 0.7) \<and>
   (8085.504 :: real) \<noteq> ((2048 - 100) / 2 - 0 + 0) * (min (2048 / 100) (2048 / 100) * 0.7)"
  by (simp add: sample_run_2048)



text \<open>
  C10, as the script has it. When a request that is not skipped has a code point that
  \<open>int(_, 16)\<close> rejects, the run ends with an exception and no font is written,
  whatever the requests before it inserted.
\<close>

theorem malformed_code_point_aborts:
  assumes "TTFont env input_font_path = Inr font"
    and "(p, g, hex, adv, sx) \<in> set svg_data_list"
    and "not_skipped env (unitsPerEm font) (p, g, hex, adv, sx)"
    and "py_int16 env hex = None"
  shows "raised (add_svg_glyphs_to_font env input_font_path output_font_path svg_data_list) \<noteq> None \<and>
         written (add_svg_glyphs_to_font env input_font_path output_font_path svg_data_list) = None"
  using assms(1) process_all_bad_hex [OF assms(2-4)] by (rule run_aborted)

theorem malformed_code_point_aborts_witness:
  "TTFont sample_env ''in.woff2'' = Inr sample_font \<and>
   not_skipped sample_env (unitsPerEm sample_font) (''plain.svg'', ''infinity'', ''22ZZ'', 600, 0) \<and>
   py_int16 sample_env ''22ZZ'' = None \<and>
   raised (add_svg_glyphs_to_font sample_env ''in.woff2'' ''out.ttf''
     [(''a.svg'', ''cup'', ''222A'', 600, 0), (''plain.svg'', ''infinity'', ''22ZZ'', 600, 0)]) \<noteq> None \<and>
   written (add_svg_glyphs_to_font sample_env ''in.woff2'' ''out.ttf''
     [(''a.svg'', ''cup'', ''222A'', 600, 0), (''plain.svg'', ''infinity'', ''22ZZ'', 600, 0)]) = None"
proof -
  have o: "TTFont sample_env ''in.woff2'' = Inr sample_font"
    by (simp add: sample_env_def)
  have m: "(''plain.svg'', ''infinity'', ''22ZZ'', 600, 0) \<in>
      set [(''a.svg'', ''cup'', ''222A'', 600, 0), (''plain.svg'', ''infinity'', ''22ZZ'', 600, 0 :: real)]"
    by simp
  have n: "not_skipped sample_env (unitsPerEm sample_font) (''plain.svg'', ''infinity'', ''22ZZ'', 600, 0)"
    by (simp add: sample_defs Let_def)
  have h: "py_int16 sample_env ''22ZZ'' = None"
    by (simp add: sample_env_def int16_of_digits_def hex_val_def digit_val_def)
  from malformed_code_point_aborts [OF o m n h, of "''out.ttf''"] o n h show ?thesis by blast
qed

text \<open>
  A request whose file is missing is skipped before its code point is converted: the
  run ends normally and the font is written.
\<close>

theorem malformed_code_point_counterexample:
  "py_int16 sample_env ''22ZZ'' = None \<and>
   add_svg_glyphs_to_font sample_env ''in.woff2'' ''out.ttf''
     [(''missing.svg'', ''cup'', ''22ZZ'', 600, 0)] =
     \<lparr>raised = None,
      console = [PrintUnitsPerEm 1000, PrintProcessing ''missing.svg'' ''cup'' ''22ZZ'',
        PrintNotFound ''missing.svg'', PrintSaved ''out.ttf''],
      written = Some (''out.ttf'', prepare_save sample_font)\<rparr>"
  by (simp add: sample_run_missing) (simp add: sample_env_def int16_of_digits_def hex_val_def digit_val_def)

text \<open>
  The \<open>try\<close> and what follows it: an exception inside the \<open>try\<close> is printed and the
  request is skipped with the font unchanged; an exception in drawing the outline
  leaves the loop.
\<close>

lemma exception_in_try_skips:
  assumes "path_exists env p"
    and "try_block env upm p (default_advance_width upm adv) sx = (out1, Inl e)"
  shows "process_request env upm font (p, g, hex, adv, sx) =
           (PrintProcessing p g hex # out1 @ [PrintError e], Inr font)"
  using assms by (simp add: process_request_def)

lemma exception_in_draw_aborts:
  assumes "path_exists env p"
    and "try_block env upm p (default_advance_width upm adv) sx = (out1, Inr sp)"
    and "draw_glyph env font sp = Inl e"
  shows "process_request env upm font (p, g, hex, adv, sx) = (PrintProcessing p g hex # out1, Inl e)"
  using assms by (simp add: process_request_def insert_glyph_def)

text \<open>
  C2. The third sample file is read, cleaned and built into a document without an
  exception, and drawing its outline raises. The run ends there with that
  exception: the request after it is not processed and no font is written.
\<close>

theorem malformed_path_data_aborts:
  "read_text sample_env ''bad.svg'' = Inr svg_bad \<and>
   add_svg_glyphs_to_font sample_env ''in.woff2'' ''out.ttf''
     [(''bad.svg'', ''element_of'', ''2208'', 600, 0), (''a.svg'', ''cup'', ''222A'', 600, 0)] =
     \<lparr>raised = Some (OtherError ''malformed path data''),
      console = [PrintUnitsPerEm 1000, PrintProcessing ''bad.svg'' ''element_of'' ''2208'',
        PrintTransform \<lparr>xx = 0.7, xy = 0, yx = 0, yy = - 0.7, dx = - 50, dy = 450\<rparr>],
      written = None\<rparr>"
  by (simp add: sample_run_bad_path) (simp add: sample_env_def)

end
